theory Spec2Isabelle
  imports Complex_Main "HOL-Library.Sublist"
begin

section \<open>Data model of the review UI (\<open>frontend/src/types.ts\<close>)\<close>

text \<open>
  A JavaScript string is a sequence of UTF-16 code units. Code units are modelled as
  natural numbers, so that Devanagari text and the white space characters outside ASCII
  are ordinary values. A string is truthy exactly when it is not empty.
  JavaScript numbers are doubles and are modelled by the numbers they denote:
  confidences by \<open>real\<close>, question ids, which are whole numbers, by \<open>int\<close>. The one
  arithmetic operation of the code on ids, the addition of 1, rounds as doubles do.
\<close>

type_synonym js_string = "nat list"

datatype QuestionType = multiple_choice | integer | fill_ups | true_false

datatype TableRenderMode = preserve | image

datatype QuestionFlag =
    missing_english
  | missing_hindi
  | missing_options
  | incomplete_options
  | ambiguous_numbering
  | complex_table
  | unmatched_images
  | low_confidence
  | count_mismatch
  | needs_image
  | options_need_images

record ImageData =
  image_id :: js_string
  filename :: js_string
  path :: js_string
  content_type :: js_string

record TableData =
  table_id :: js_string
  html :: js_string
  is_complex :: bool
  render_mode :: TableRenderMode
  image_path :: "js_string option"

text \<open>The interface \<open>Option\<close>; its two texts carry the prefix \<open>o_\<close> here.\<close>

record Option_t =
  label :: js_string
  o_english_text :: js_string
  o_hindi_text :: js_string
  o_needs_image :: "bool option"
  o_images :: "ImageData list option"

text \<open>
  The interface \<open>Question\<close>; its field \<open>id\<close> is \<open>id_q\<close> here. The field \<open>flags\<close> is
  declared \<open>QuestionFlag[]\<close>, but the records are read from the server's JSON without a
  check (\<open>const data: PreviewResponse = await response.json()\<close>), so at run time every
  flag is a string; the field holds strings here.
\<close>

record Question =
  id_q :: int
  english_text :: js_string
  hindi_text :: js_string
  question_type :: QuestionType
  options :: "Option_t list"
  tables :: "TableData list"
  images :: "ImageData list"
  answer :: "js_string option"
  solution_english :: "js_string option"
  solution_hindi :: "js_string option"
  grading :: "js_string option"
  confidence :: real
  flags :: "js_string list"
  q_needs_image :: "bool option"
  raw_english :: "js_string option"
  raw_hindi :: "js_string option"

section \<open>The question list of \<open>PreviewEditor\<close>\<close>

text \<open>\<open>prev.map(q => q.id === updated.id ? updated : q)\<close>\<close>

definition handleUpdateQuestion :: "Question \<Rightarrow> Question list \<Rightarrow> Question list" where
  "handleUpdateQuestion updated prev =
     map (\<lambda>q. if id_q q = id_q updated then updated else q) prev"

text \<open>\<open>[...prev, newQuestion]\<close>\<close>

definition handleAddQuestion :: "Question \<Rightarrow> Question list \<Rightarrow> Question list" where
  "handleAddQuestion newQuestion prev = prev @ [newQuestion]"

text \<open>
  The list changes only when the user confirms the dialog of \<open>window.confirm\<close>; the
  user's answer is the first argument.
\<close>

definition handleDeleteQuestion :: "bool \<Rightarrow> int \<Rightarrow> Question list \<Rightarrow> Question list" where
  "handleDeleteQuestion confirmed i prev =
     (if confirmed then filter (\<lambda>q. id_q q \<noteq> i) prev else prev)"

text \<open>
  The whole numbers among the finite doubles are the integers of magnitude up to \<open>2^53\<close>
  and, beyond, the products of a number below \<open>2^53\<close> and a power of two. For a
  magnitude \<open>n\<close>, \<open>double_exponent n\<close> is the exponent of that power, and
  \<open>nearest_double n\<close> is the double nearest to \<open>n\<close>, of two equally near ones the one whose
  factor is even. The sum of two doubles is rounded so.
\<close>

fun double_exponent :: "nat \<Rightarrow> nat" where
  "double_exponent n = (if n < 2 ^ 53 then 0 else Suc (double_exponent (n div 2)))"

declare double_exponent.simps [simp del]

definition nearest_double :: "nat \<Rightarrow> nat" where
  "nearest_double n =
     (let s = 2 ^ double_exponent n; q = n div s; r = n mod s
      in if 2 * r < s \<or> (2 * r = s \<and> even q) then q * s else (q + 1) * s)"

definition double_of_int :: "int \<Rightarrow> int" where
  "double_of_int x =
     (if x < 0 then - int (nearest_double (nat (- x))) else int (nearest_double (nat x)))"

text \<open>\<open>Number.isSafeInteger\<close>: the magnitude is below \<open>2^53\<close>.\<close>

definition safe_integer :: "int \<Rightarrow> bool" where
  "safe_integer x \<longleftrightarrow> \<bar>x\<bar> < 2 ^ 53"

text \<open>
  The property \<open>nextId\<close> handed to the add-question form:
  \<open>questions.length > 0 ? Math.max(...questions.map(q => q.id)) + 1 : 1\<close>.
  The sum is a sum of doubles. The spread passes every id as an argument of one call,
  and an engine throws a \<open>RangeError\<close> when a call has more arguments than it allows;
  that limit is the parameter \<open>max_arguments\<close>.
\<close>

datatype js_error = RangeError

definition nextId :: "nat \<Rightarrow> Question list \<Rightarrow> js_error + int" where
  "nextId max_arguments questions =
     (if length questions > 0 then
        if length questions \<le> max_arguments then
          Inr (double_of_int (Max (set (map id_q questions)) + 1))
        else Inl RangeError
      else Inr 1)"

datatype filter_mode = FilterAll | FilterFlagged | FilterLowConfidence

text \<open>The state values \<open>'all'\<close>, \<open>'flagged'\<close> and \<open>'low-confidence'\<close> of \<open>filter\<close>.\<close>

definition filteredQuestions :: "filter_mode \<Rightarrow> Question list \<Rightarrow> Question list" where
  "filteredQuestions f questions =
     filter (\<lambda>q. if f = FilterFlagged then length (flags q) > 0
                 else if f = FilterLowConfidence then confidence q < 0.7
                 else True) questions"

text \<open>The counters shown on the two filter buttons.\<close>

definition flagged_count :: "Question list \<Rightarrow> nat" where
  "flagged_count questions = length (filter (\<lambda>q. length (flags q) > 0) questions)"

definition low_confidence_count :: "Question list \<Rightarrow> nat" where
  "low_confidence_count questions = length (filter (\<lambda>q. confidence q < 0.7) questions)"

text \<open>The order-preservation property of the specification, and the weaker one.\<close>

definition ids_by_position :: "Question list \<Rightarrow> bool" where
  "ids_by_position records = (\<forall>i < length records. id_q (records ! i) = int i + 1)"

definition ids_increasing :: "Question list \<Rightarrow> bool" where
  "ids_increasing records = sorted_wrt (<) (map id_q records)"

text \<open>A question with the given id, texts and confidence and nothing else.\<close>

definition plain_question :: "int \<Rightarrow> js_string \<Rightarrow> js_string \<Rightarrow> real \<Rightarrow> Question" where
  "plain_question i en hi c =
     \<lparr>id_q = i, english_text = en, hindi_text = hi, question_type = multiple_choice,
      options = [], tables = [], images = [], answer = None, solution_english = None,
      solution_hindi = None, grading = None, confidence = c, flags = [],
      q_needs_image = None, raw_english = None, raw_hindi = None\<rparr>"

section \<open>Option lists (\<open>QuestionCard\<close> and \<open>AddQuestionForm\<close>)\<close>

text \<open>The code units of a string literal that is written in ASCII.\<close>

definition ascii :: "string \<Rightarrow> js_string" where
  "ascii s = map of_char s"

text \<open>The decimal digits of a non-negative integer, as the template literal prints it.\<close>

fun decimal :: "nat \<Rightarrow> js_string" where
  "decimal n = (if n < 10 then [48 + n] else decimal (n div 10) @ [48 + n mod 10])"

declare decimal.simps [simp del]

text \<open>\<open>const labels = ['A', 'B', 'C', 'D', 'E', 'F', 'G', 'H']\<close>\<close>

definition labels :: "js_string list" where
  "labels = map ascii [''A'', ''B'', ''C'', ''D'', ''E'', ''F'', ''G'', ''H'']"

text \<open>
  \<open>labels[i] || `O${i + 1}`\<close>: an index outside the array reads \<open>undefined\<close>, which is
  falsy, as an empty string would be.
\<close>

definition label_at :: "nat \<Rightarrow> js_string" where
  "label_at i =
     (if i < length labels \<and> labels ! i \<noteq> [] then labels ! i
      else ascii ''O'' @ decimal (i + 1))"

text \<open>
  \<open>handleAddOption\<close> and \<open>handleRemoveOption\<close> compute the same new option list in both
  components; \<open>QuestionCard\<close> stores it in \<open>editData.options\<close>, \<open>AddQuestionForm\<close> in its
  state \<open>options\<close>.
\<close>

definition handleAddOption :: "Option_t list \<Rightarrow> Option_t list" where
  "handleAddOption opts =
     opts @ [\<lparr>label = label_at (length opts), o_english_text = [], o_hindi_text = [],
              o_needs_image = None, o_images = None\<rparr>]"

definition handleRemoveOption :: "nat \<Rightarrow> Option_t list \<Rightarrow> Option_t list" where
  "handleRemoveOption index opts =
     (if length opts \<le> 2 then opts
      else let newOptions = map snd (filter (\<lambda>(i, opt). i \<noteq> index) (enumerate 0 opts))
           in map (\<lambda>(i, opt). opt\<lparr>label := label_at i\<rparr>) (enumerate 0 newOptions))"

definition card_handleAddOption :: "Question \<Rightarrow> Question" where
  "card_handleAddOption editData = editData\<lparr>options := handleAddOption (options editData)\<rparr>"

definition card_handleRemoveOption :: "nat \<Rightarrow> Question \<Rightarrow> Question" where
  "card_handleRemoveOption index editData =
     editData\<lparr>options := handleRemoveOption index (options editData)\<rparr>"

section \<open>The add-question form (\<open>AddQuestionForm.tsx\<close>)\<close>

record formData =
  f_english_text :: js_string
  f_hindi_text :: js_string
  f_question_type :: QuestionType
  f_answer :: js_string
  f_solution_english :: js_string
  f_solution_hindi :: js_string
  f_grading :: js_string

record 'file UploadedImage =
  img_file :: 'file
  preview :: js_string
  upload_id :: js_string
  uploaded :: "ImageData option"

text \<open>
  The state of the form that \<open>handleSubmit\<close> reads. \<open>optionImages\<close> is keyed by option
  label; a key that is missing or holds \<open>null\<close> is \<open>None\<close>.
\<close>

record 'file form_state =
  formData :: formData
  form_options :: "Option_t list"
  questionImages :: "'file UploadedImage list"
  optionImages :: "js_string \<rightharpoonup> 'file UploadedImage"

definition form_handleAddOption :: "'file form_state \<Rightarrow> 'file form_state" where
  "form_handleAddOption st = st\<lparr>form_options := handleAddOption (form_options st)\<rparr>"

text \<open>
  In the form, removing an option also clears the selected answer when no remaining
  label equals it. With two options or fewer the function returns before both.
\<close>

definition form_handleRemoveOption :: "nat \<Rightarrow> 'file form_state \<Rightarrow> 'file form_state" where
  "form_handleRemoveOption index st =
     (if length (form_options st) \<le> 2 then st
      else let relabeledOptions = handleRemoveOption index (form_options st);
               fd = formData st
           in st\<lparr>form_options := relabeledOptions,
                 formData := (if f_answer fd \<noteq> [] \<and>
                                  find (\<lambda>opt. label opt = f_answer fd) relabeledOptions = None
                              then fd\<lparr>f_answer := []\<rparr> else fd)\<rparr>)"

text \<open>
  \<open>String.prototype.trim\<close> removes white space and line terminators from both ends:
  U+0009 to U+000D, U+0020, U+00A0, U+1680, U+2000 to U+200A, U+2028, U+2029, U+202F,
  U+205F, U+3000 and U+FEFF.
\<close>

definition isWhiteSpace :: "nat \<Rightarrow> bool" where
  "isWhiteSpace c \<longleftrightarrow>
     (9 \<le> c \<and> c \<le> 13) \<or> c = 32 \<or> c = 160 \<or> c = 5760 \<or> (8192 \<le> c \<and> c \<le> 8202) \<or>
     c = 8232 \<or> c = 8233 \<or> c = 8239 \<or> c = 8287 \<or> c = 12288 \<or> c = 65279"

definition trim :: "js_string \<Rightarrow> js_string" where
  "trim s = rev (dropWhile isWhiteSpace (rev (dropWhile isWhiteSpace s)))"

text \<open>\<open>o => o.english_text || o.hindi_text\<close>, read as a truth value.\<close>

definition has_text :: "Option_t \<Rightarrow> bool" where
  "has_text opt \<longleftrightarrow> o_english_text opt \<noteq> [] \<or> o_hindi_text opt \<noteq> []"

text \<open>\<open>s || undefined\<close>\<close>

definition or_undefined :: "js_string \<Rightarrow> js_string option" where
  "or_undefined s = (if s \<noteq> [] then Some s else None)"

text \<open>
  \<open>uploadImage\<close> posts a file to the server and yields the server's \<open>ImageData\<close>, or
  \<open>null\<close> after any failure (it catches its own exceptions). The server is a parameter:
  a function from its state \<open>'w\<close> and the file to the answer and its next state.
  The two loops of \<open>handleSubmit\<close> call it in order.
\<close>

fun upload_question_images ::
  "('w \<Rightarrow> 'file \<Rightarrow> ImageData option \<times> 'w) \<Rightarrow> 'file UploadedImage list \<Rightarrow> 'w \<Rightarrow>
   ImageData list \<times> 'w" where
  "upload_question_images uploadImage [] w = ([], w)"
| "upload_question_images uploadImage (img # imgs) w =
     (case uploadImage w (img_file img) of
        (None, w') \<Rightarrow> upload_question_images uploadImage imgs w'
      | (Some up, w') \<Rightarrow>
          (case upload_question_images uploadImage imgs w' of
             (ups, w'') \<Rightarrow> (up # ups, w'')))"

text \<open>
  \<open>opt.english_text + (opt.english_text ? ' ' : '') + `[Image: ${uploaded.filename}]`\<close>
\<close>

definition with_image_reference :: "Option_t \<Rightarrow> ImageData \<Rightarrow> Option_t" where
  "with_image_reference opt up =
     opt\<lparr>o_english_text :=
           o_english_text opt @ (if o_english_text opt \<noteq> [] then ascii '' '' else []) @
           ascii ''[Image: '' @ filename up @ ascii '']''\<rparr>"

fun upload_option_images ::
  "('w \<Rightarrow> 'file \<Rightarrow> ImageData option \<times> 'w) \<Rightarrow> (js_string \<rightharpoonup> 'file UploadedImage) \<Rightarrow>
   Option_t list \<Rightarrow> 'w \<Rightarrow> Option_t list \<times> 'w" where
  "upload_option_images uploadImage optImgs [] w = ([], w)"
| "upload_option_images uploadImage optImgs (opt # opts) w =
     (case optImgs (label opt) of
        None \<Rightarrow>
          (case upload_option_images uploadImage optImgs opts w of
             (opts', w') \<Rightarrow> (opt # opts', w'))
      | Some optImage \<Rightarrow>
          (case uploadImage w (img_file optImage) of
             (None, w') \<Rightarrow>
               (case upload_option_images uploadImage optImgs opts w' of
                  (opts', w'') \<Rightarrow> (opt # opts', w''))
           | (Some up, w') \<Rightarrow>
               (case upload_option_images uploadImage optImgs opts w' of
                  (opts', w'') \<Rightarrow> (with_image_reference opt up # opts', w''))))"

text \<open>
  The two messages of \<open>setError\<close>: ``Please enter question text (English or Hindi)''
  and ``Please enter at least 2 options for multiple choice questions''.
\<close>

datatype submit_error = NoQuestionText | TooFewOptions

text \<open>
  \<open>handleSubmit\<close>: \<open>Inl\<close> is a rejected form (nothing is uploaded, \<open>onAdd\<close> is not
  called), \<open>Inr\<close> is the question handed to \<open>onAdd\<close>.
\<close>

definition handleSubmit ::
  "('w \<Rightarrow> 'file \<Rightarrow> ImageData option \<times> 'w) \<Rightarrow> int \<Rightarrow> 'file form_state \<Rightarrow> 'w \<Rightarrow>
   (submit_error + Question) \<times> 'w" where
  "handleSubmit uploadImage next_id st w =
     (let fd = formData st in
      if trim (f_english_text fd) = [] \<and> trim (f_hindi_text fd) = [] then
        (Inl NoQuestionText, w)
      else if f_question_type fd = multiple_choice \<and>
              length (filter has_text (form_options st)) < 2 then
        (Inl TooFewOptions, w)
      else
        (case upload_question_images uploadImage (questionImages st) w of
           (uploadedQuestionImages, w1) \<Rightarrow>
             (case upload_option_images uploadImage (optionImages st) (form_options st) w1 of
                (updatedOptions, w2) \<Rightarrow>
                  (Inr \<lparr>id_q = next_id,
                        english_text = f_english_text fd,
                        hindi_text = f_hindi_text fd,
                        question_type = f_question_type fd,
                        options = filter has_text updatedOptions,
                        tables = [],
                        images = uploadedQuestionImages,
                        answer = or_undefined (f_answer fd),
                        solution_english = or_undefined (f_solution_english fd),
                        solution_hindi = or_undefined (f_solution_hindi fd),
                        grading = or_undefined (f_grading fd),
                        confidence = 1.0,
                        flags = [],
                        q_needs_image = None,
                        raw_english = None,
                        raw_hindi = None\<rparr>, w2))))"

section \<open>Editing a question (\<open>QuestionCard\<close>)\<close>

text \<open>
  The two text areas of the edit mode: \<open>setEditData({ ...editData, english_text: value })\<close>
  and the same for \<open>hindi_text\<close>.
\<close>

definition edit_english_text :: "js_string \<Rightarrow> Question \<Rightarrow> Question" where
  "edit_english_text v editData = editData\<lparr>english_text := v\<rparr>"

definition edit_hindi_text :: "js_string \<Rightarrow> Question \<Rightarrow> Question" where
  "edit_hindi_text v editData = editData\<lparr>hindi_text := v\<rparr>"

text \<open>
  \<open>handleSave\<close>: the new question images are uploaded and appended to the existing ones,
  the chosen option images are uploaded and referenced in the options' English texts,
  and the edited record is handed to \<open>onUpdate\<close>. No field is validated. The arguments
  are the states \<open>editData\<close>, \<open>newQuestionImages\<close> and \<open>optionImages\<close> of the card.
\<close>

definition handleSave ::
  "('w \<Rightarrow> 'file \<Rightarrow> ImageData option \<times> 'w) \<Rightarrow> Question \<Rightarrow> 'file UploadedImage list \<Rightarrow>
   (js_string \<rightharpoonup> 'file UploadedImage) \<Rightarrow> 'w \<Rightarrow> Question \<times> 'w" where
  "handleSave uploadImage editData newQuestionImages optImgs w =
     (case upload_question_images uploadImage newQuestionImages w of
        (uploadedNew, w1) \<Rightarrow>
          (case upload_option_images uploadImage optImgs (options editData) w1 of
             (updatedOptions, w2) \<Rightarrow>
               (editData\<lparr>images := images editData @ uploadedNew,
                          options := updatedOptions\<rparr>, w2)))"

section \<open>The flag vocabulary\<close>











section \<open>The Bilingual Aligner (specification, section 4.5)\<close>

text \<open>
  Modelled from the spec: the Bilingual Aligner and its records. The repository's
  sources hold the review UI only; the pipeline that produces the question list is not
  among them. The records keep the fields that section 4.5 reads or writes; tables,
  images and the confidence are set by other components.
\<close>

text \<open>
  Modelled from the spec: \<open>OptionRecord\<close>, \<open>{label, text, image_ref?}\<close>, the label
  normalized to A, B, C, \<open>\<dots>\<close>
\<close>

record OptionRecord =
  r_label :: js_string
  r_text :: js_string
  r_image_ref :: "js_string option"

text \<open>
  Modelled from the spec: \<open>MonolingualQuestionRecord\<close>, without its tables and images.
\<close>

record MonolingualQuestionRecord =
  sequence_index :: nat
  declared_ordinal :: "nat option"
  m_text :: js_string
  m_options :: "OptionRecord list"

text \<open>
  Modelled from the spec: \<open>BilingualOption = {label, english_text, hindi_text}\<close>, both
  texts defaulting to the empty string.
\<close>

record BilingualOption =
  b_label :: js_string
  b_english_text :: js_string
  b_hindi_text :: js_string

text \<open>
  Modelled from the spec: \<open>BilingualQuestionRecord\<close> as the aligner leaves it; either
  side may be absent, and the flags are a set.
\<close>

record BilingualQuestionRecord =
  b_id :: nat
  english :: "MonolingualQuestionRecord option"
  hindi :: "MonolingualQuestionRecord option"
  merged_options :: "BilingualOption list"
  b_flags :: "QuestionFlag set"

text \<open>
  Modelled from the spec: what a job carries, \<open>{records, english_count, hindi_count}\<close>
  and the flags of the job as a whole.
\<close>

record job_output =
  job_records :: "BilingualQuestionRecord list"
  english_count :: nat
  hindi_count :: nat
  job_flags :: "QuestionFlag set"

text \<open>
  Modelled from the spec: ``Option lists are merged position-by-position by label
  \<open>\<dots>\<close>; a label present on only one side still appears once, with the missing side
  defaulted to empty string''.
\<close>

fun merge_options :: "OptionRecord list \<Rightarrow> OptionRecord list \<Rightarrow> BilingualOption list" where
  "merge_options [] [] = []"
| "merge_options (e # es) [] =
     \<lparr>b_label = r_label e, b_english_text = r_text e, b_hindi_text = []\<rparr> # merge_options es []"
| "merge_options [] (h # hs) =
     \<lparr>b_label = r_label h, b_english_text = [], b_hindi_text = r_text h\<rparr> # merge_options [] hs"
| "merge_options (e # es) (h # hs) =
     \<lparr>b_label = r_label e, b_english_text = r_text e, b_hindi_text = r_text h\<rparr> #
     merge_options es hs"

text \<open>Modelled from the spec: ``if one side's text is empty or absent''.\<close>

definition side_missing :: "MonolingualQuestionRecord option \<Rightarrow> bool" where
  "side_missing side = (case side of None \<Rightarrow> True | Some r \<Rightarrow> m_text r = [])"

text \<open>Modelled from the spec: the options of a side; an absent side has none.\<close>

definition side_options :: "MonolingualQuestionRecord option \<Rightarrow> OptionRecord list" where
  "side_options side = (case side of None \<Rightarrow> [] | Some r \<Rightarrow> m_options r)"

text \<open>
  Modelled from the spec: the record at output position \<open>i\<close> (ids are 1-based, in output
  order), with the per-record flags of section 4.5 that depend on the two sides.
\<close>

definition align_pair ::
  "nat \<Rightarrow> MonolingualQuestionRecord option \<Rightarrow> MonolingualQuestionRecord option \<Rightarrow>
   BilingualQuestionRecord" where
  "align_pair i e h =
     \<lparr>b_id = i + 1, english = e, hindi = h,
      merged_options = merge_options (side_options e) (side_options h),
      b_flags = (if side_missing e then {missing_english} else {}) \<union>
                (if side_missing h then {missing_hindi} else {}) \<union>
                (if length (side_options e) \<noteq> length (side_options h)
                 then {incomplete_options} else {})\<rparr>"

text \<open>
  Modelled from the spec: the record of a sequence at a position, absent beyond the
  sequence's length.
\<close>

definition nth_opt :: "'a list \<Rightarrow> nat \<Rightarrow> 'a option" where
  "nth_opt xs i = (if i < length xs then Some (xs ! i) else None)"

text \<open>
  Modelled from the spec: strict index pairing for \<open>min(len_en, len_hi)\<close> positions, every
  record beyond that length emitted as single-language.
\<close>

definition align ::
  "MonolingualQuestionRecord list \<Rightarrow> MonolingualQuestionRecord list \<Rightarrow>
   BilingualQuestionRecord list" where
  "align en hi =
     map (\<lambda>i. align_pair i (nth_opt en i) (nth_opt hi i)) [0..<max (length en) (length hi)]"

text \<open>
  Modelled from the spec: the output of the aligner for a job; ``flag \<open>count_mismatch\<close>
  applied to the whole job'' when the two sequences have different lengths.
\<close>

definition align_job ::
  "MonolingualQuestionRecord list \<Rightarrow> MonolingualQuestionRecord list \<Rightarrow> job_output" where
  "align_job en hi =
     \<lparr>job_records = align en hi, english_count = length en, hindi_count = length hi,
      job_flags = (if length en \<noteq> length hi then {count_mismatch} else {})\<rparr>"

text \<open>A monolingual record with the given index and text and no options.\<close>

definition mono :: "nat \<Rightarrow> js_string \<Rightarrow> MonolingualQuestionRecord" where
  "mono i t = \<lparr>sequence_index = i, declared_ordinal = None, m_text = t, m_options = []\<rparr>"

section \<open>The Confidence and Flag Engine (specification, section 4.6)\<close>

text \<open>
  Modelled from the spec: the Segmenter's boundary rules and their confidences (section
  4.2): rule 1 gives 1.0, rule 2 gives 0.8, rule 3 gives 0.5. The engine is not in the
  repository's sources.
\<close>

datatype boundary_rule = numbered_lead | heading_rule | option_density

fun boundary_confidence :: "boundary_rule \<Rightarrow> real" where
  "boundary_confidence numbered_lead = 1.0"
| "boundary_confidence heading_rule = 0.8"
| "boundary_confidence option_density = 0.5"

text \<open>
  Modelled from the spec: what the engine reads of a record: the boundary rule of the
  anchor language, whether any associated table is complex, and the flags that apply.
\<close>

record engine_input =
  boundary :: boundary_rule
  any_table_complex :: bool
  in_flags :: "QuestionFlag set"

text \<open>Modelled from the spec: a penalty multiplies by its factor when it applies.\<close>

definition penalty :: "bool \<Rightarrow> real \<Rightarrow> real" where
  "penalty applies factor = (if applies then factor else 1)"

text \<open>Modelled from the spec: ``clamped to [0,1]''.\<close>

definition clamp01 :: "real \<Rightarrow> real" where
  "clamp01 x = max 0 (min 1 x)"

text \<open>
  Modelled from the spec: ``reduced multiplicatively by fixed penalties, applied
  independently and compounded: x0.7 if missing_options; x0.8 if missing_english or
  missing_hindi; x0.85 if ambiguous_numbering; x0.9 if any associated table is complex;
  x0.9 if incomplete_options; x0.75 if count_mismatch applies to this record. Final
  confidence is clamped to [0,1].''
\<close>

definition compute_confidence :: "engine_input \<Rightarrow> real" where
  "compute_confidence r =
     clamp01 (boundary_confidence (boundary r)
       * penalty (missing_options \<in> in_flags r) 0.7
       * penalty (missing_english \<in> in_flags r \<or> missing_hindi \<in> in_flags r) 0.8
       * penalty (ambiguous_numbering \<in> in_flags r) 0.85
       * penalty (any_table_complex r) 0.9
       * penalty (incomplete_options \<in> in_flags r) 0.9
       * penalty (count_mismatch \<in> in_flags r) 0.75)"

text \<open>
  The seven flags that the monotonicity claim calls penalized. Section 4.6 keys its
  penalties on six of them (one penalty on either of the two missing-language flags)
  and the remaining penalty on a table being complex.
\<close>

definition penalized_flags :: "QuestionFlag set" where
  "penalized_flags =
     {missing_options, missing_english, missing_hindi, ambiguous_numbering, complex_table,
      incomplete_options, count_mismatch}"

text \<open>Modelled from the spec: the flags on which section 4.6 keys a penalty.\<close>

definition flag_penalized :: "QuestionFlag set" where
  "flag_penalized =
     {missing_options, missing_english, missing_hindi, ambiguous_numbering,
      incomplete_options, count_mismatch}"

text \<open>Modelled from the spec: the same record with one flag added to its flags.\<close>

definition raise_flag :: "QuestionFlag \<Rightarrow> engine_input \<Rightarrow> engine_input" where
  "raise_flag f r = r\<lparr>in_flags := insert f (in_flags r)\<rparr>"

section \<open>Predicates and example values used by the theorems\<close>




text \<open>An option with the given label and texts and no optional field.\<close>

definition plain_option :: "js_string \<Rightarrow> js_string \<Rightarrow> js_string \<Rightarrow> Option_t" where
  "plain_option l en hi =
     \<lparr>label = l, o_english_text = en, o_hindi_text = hi, o_needs_image = None,
      o_images = None\<rparr>"


text \<open>Four options labelled A to D, the first two with an English text.\<close>

definition four_options :: "Option_t list" where
  "four_options =
     [plain_option (ascii ''A'') (ascii ''3'') [],
      plain_option (ascii ''B'') (ascii ''4'') [],
      plain_option (ascii ''C'') [] [],
      plain_option (ascii ''D'') [] []]"

text \<open>A server on which every upload succeeds, and which counts the uploads.\<close>

definition example_upload :: "nat \<Rightarrow> nat \<Rightarrow> ImageData option \<times> nat" where
  "example_upload w f =
     (Some \<lparr>image_id = ascii ''i1'', filename = ascii ''c.png'', path = ascii ''/i/c.png'',
            content_type = ascii ''image/png''\<rparr>, w + 1)"

text \<open>
  A filled form: an English question, options A and B filled, an image chosen for the
  empty option C. The blank form differs in its two question texts, which hold white
  space only.
\<close>

definition example_form :: "nat form_state" where
  "example_form =
     \<lparr>formData =
        \<lparr>f_english_text = ascii '' 2 + 2 = ?'', f_hindi_text = [],
         f_question_type = multiple_choice, f_answer = ascii ''B'',
         f_solution_english = [], f_solution_hindi = [], f_grading = ascii ''+4/-1''\<rparr>,
      form_options = four_options,
      questionImages = [],
      optionImages =
        [ascii ''C'' \<mapsto> \<lparr>img_file = 7, preview = [], upload_id = ascii ''opt_img_C_0'',
                          uploaded = None\<rparr>]\<rparr>"

definition blank_form :: "nat form_state" where
  "blank_form =
     example_form\<lparr>formData :=
       (formData example_form)\<lparr>f_english_text := ascii ''  '', f_hindi_text := [9, 12288]\<rparr>\<rparr>"

text \<open>The question that the filled form submits under the id 5.\<close>

definition example_added :: Question where
  "example_added =
     \<lparr>id_q = 5, english_text = ascii '' 2 + 2 = ?'', hindi_text = [],
      question_type = multiple_choice,
      options = [plain_option (ascii ''A'') (ascii ''3'') [],
                 plain_option (ascii ''B'') (ascii ''4'') [],
                 plain_option (ascii ''C'') (ascii ''[Image: c.png]'') []],
      tables = [], images = [], answer = Some (ascii ''B''), solution_english = None,
      solution_hindi = None, grading = Some (ascii ''+4/-1''), confidence = 1, flags = [],
      q_needs_image = None, raw_english = None, raw_hindi = None\<rparr>"

text \<open>Three English and two Hindi records, and a record read under boundary rule 2.\<close>

definition three_english :: "MonolingualQuestionRecord list" where
  "three_english = [mono 0 (ascii ''x''), mono 1 (ascii ''y''), mono 2 (ascii ''z'')]"

definition two_hindi :: "MonolingualQuestionRecord list" where
  "two_hindi = [mono 0 (ascii ''a''), mono 1 (ascii ''b'')]"

definition heading_record :: engine_input where
  "heading_record = \<lparr>boundary = heading_rule, any_table_complex = False, in_flags = {}\<rparr>"

text \<open>
  A question list with the ids 1 and 2, one with the ids 1, 2 and 3, and the first
  question with both its texts cleared in the edit mode.
\<close>

definition two_questions :: "Question list" where
  "two_questions =
     [plain_question 1 (ascii ''one'') [] 1, plain_question 2 (ascii ''two'') [] 1]"

definition three_questions :: "Question list" where
  "three_questions =
     [plain_question 1 (ascii ''one'') [] 1, plain_question 2 (ascii ''two'') [] 1,
      plain_question 3 (ascii ''three'') [] 1]"

definition cleared_question :: Question where
  "cleared_question =
     edit_hindi_text [] (edit_english_text [] (plain_question 1 (ascii ''one'') [] 1))"


section \<open>Auxiliary facts\<close>

subsection \<open>Question ids\<close>

lemma map_id_update: "map id_q (handleUpdateQuestion u qs) = map id_q qs"
  by (induction qs) (auto simp: handleUpdateQuestion_def)

lemma nearest_double_small: "n < 2 ^ 53 \<Longrightarrow> nearest_double n = n"
  by (simp add: nearest_double_def double_exponent.simps[of n])

lemma double_exponent_2_53: "double_exponent 9007199254740992 = 1"
  by (simp add: double_exponent.simps[of 9007199254740992]
      double_exponent.simps[of 4503599627370496])

lemma nearest_double_2_53: "nearest_double 9007199254740992 = 9007199254740992"
  by (simp add: nearest_double_def double_exponent_2_53)

lemma nearest_double_exact: "n \<le> 2 ^ 53 \<Longrightarrow> nearest_double n = n"
  using nearest_double_small[of n] nearest_double_2_53 by (cases "n = 2 ^ 53") auto

lemma double_of_int_exact:
  assumes "\<bar>x\<bar> \<le> 2 ^ 53"
  shows "double_of_int x = x"
proof (cases "x < 0")
  case True
  then have "nat (- x) \<le> 2 ^ 53" using assms by (simp add: nat_le_iff)
  then show ?thesis using True by (simp add: double_of_int_def nearest_double_exact)
next
  case False
  then have "nat x \<le> 2 ^ 53" using assms by (simp add: nat_le_iff)
  then show ?thesis using False by (simp add: double_of_int_def nearest_double_exact)
qed

lemma double_of_int_after_2_53: "double_of_int (9007199254740992 + 1) = 9007199254740992"
  by (simp add: double_of_int_def nearest_double_def
      double_exponent.simps[of 9007199254740993] double_exponent.simps[of 4503599627370496])

lemma Max_ids_by_position:
  assumes "ids_by_position qs" "qs \<noteq> []"
  shows "Max (set (map id_q qs)) = int (length qs)"
proof (rule Max_eqI)
  have ids: "id_q (qs ! i) = int i + 1" if "i < length qs" for i
    using assms(1) that by (simp add: ids_by_position_def)
  show "finite (set (map id_q qs))" by simp
  show "y \<le> int (length qs)" if "y \<in> set (map id_q qs)" for y
  proof -
    from that obtain i where "i < length qs" "y = id_q (qs ! i)"
      by (auto simp: in_set_conv_nth)
    then show ?thesis using ids by simp
  qed
  have l: "length qs - 1 < length qs" using assms(2) by simp
  have "id_q (qs ! (length qs - 1)) = int (length qs)"
    using ids[OF l] assms(2) by (simp add: of_nat_diff Suc_leI)
  moreover have "qs ! (length qs - 1) \<in> set qs" using l by (rule nth_mem)
  ultimately show "int (length qs) \<in> set (map id_q qs)" by force
qed

lemma nextId_by_position:
  assumes "ids_by_position qs" "length qs < 2 ^ 53" "nextId m qs = Inr n"
  shows "n = int (length qs) + 1"
proof (cases "qs = []")
  case True
  then show ?thesis using assms(3) by (simp add: nextId_def)
next
  case False
  have "int (length qs) < 2 ^ 53" using assms(2) by simp
  then have "double_of_int (int (length qs) + 1) = int (length qs) + 1"
    by (intro double_of_int_exact) simp
  then show ?thesis
    using False Max_ids_by_position[OF assms(1) False] assms(3)
    by (simp add: nextId_def split: if_splits)
qed

lemma nextId_returns: "length qs \<le> m \<Longrightarrow> \<exists>n. nextId m qs = Inr n"
  by (simp add: nextId_def)

lemma nextId_greater:
  assumes "q \<in> set qs" "\<forall>q \<in> set qs. safe_integer (id_q q)" "nextId m qs = Inr n"
  shows "id_q q < n"
proof -
  have ne: "set (map id_q qs) \<noteq> {}" using assms(1) by auto
  have le: "id_q q \<le> Max (set (map id_q qs))" using assms(1) by (intro Max_ge) auto
  have "Max (set (map id_q qs)) \<in> set (map id_q qs)" using ne by (intro Max_in) auto
  then have "safe_integer (Max (set (map id_q qs)))" using assms(2) by auto
  then have "\<bar>Max (set (map id_q qs)) + 1\<bar> \<le> 2 ^ 53"
    unfolding safe_integer_def by linarith
  then have "double_of_int (Max (set (map id_q qs)) + 1) = Max (set (map id_q qs)) + 1"
    by (rule double_of_int_exact)
  moreover have "qs \<noteq> []" using assms(1) by auto
  ultimately show ?thesis using le assms(3) by (simp add: nextId_def split: if_splits)
qed

lemma add_by_position:
  assumes "ids_by_position qs" "length qs < 2 ^ 53" "nextId m qs = Inr (id_q n)"
  shows "ids_by_position (handleAddQuestion n qs)"
  unfolding ids_by_position_def handleAddQuestion_def
proof (intro allI impI)
  fix i assume "i < length (qs @ [n])"
  then consider "i < length qs" | "i = length qs" by force
  then show "id_q ((qs @ [n]) ! i) = int i + 1"
  proof cases
    case 1
    then show ?thesis using assms(1) by (simp add: nth_append ids_by_position_def)
  next
    case 2
    then show ?thesis using nextId_by_position[OF assms] by simp
  qed
qed

lemma update_by_position:
  "ids_by_position qs \<Longrightarrow> ids_by_position (handleUpdateQuestion u qs)"
  by (simp add: ids_by_position_def handleUpdateQuestion_def)

lemma add_increasing:
  "ids_increasing qs \<Longrightarrow> \<forall>q \<in> set qs. safe_integer (id_q q) \<Longrightarrow>
   nextId m qs = Inr (id_q n) \<Longrightarrow> ids_increasing (handleAddQuestion n qs)"
  by (auto simp: ids_increasing_def handleAddQuestion_def sorted_wrt_append
      intro: nextId_greater)

lemma delete_nths:
  "handleDeleteQuestion True i qs = nths qs {k. k < length qs \<and> id_q (qs ! k) \<noteq> i}"
proof -
  have "handleDeleteQuestion True i qs = filter (\<lambda>q. id_q q \<noteq> i) qs"
    by (simp add: handleDeleteQuestion_def)
  then show ?thesis by (simp only: filter_eq_nths)
qed

lemma add_repeats_largest_id:
  "ids_increasing [plain_question 9007199254740992 [] [] 1] \<and>
   nextId 65535 [plain_question 9007199254740992 [] [] 1] = Inr 9007199254740992 \<and>
   \<not> ids_increasing (handleAddQuestion (plain_question 9007199254740992 [] [] 1)
        [plain_question 9007199254740992 [] [] 1])"
  using double_of_int_after_2_53
  by (simp add: ids_increasing_def nextId_def handleAddQuestion_def plain_question_def)

lemma update_increasing:
  "ids_increasing qs \<Longrightarrow> ids_increasing (handleUpdateQuestion u qs)"
  by (simp add: ids_increasing_def map_id_update)

lemma delete_increasing:
  "ids_increasing qs \<Longrightarrow> ids_increasing (handleDeleteQuestion c i qs)"
  by (auto simp: ids_increasing_def handleDeleteQuestion_def sorted_wrt_map sorted_wrt_filter)

lemma by_position_increasing: "ids_by_position qs \<Longrightarrow> ids_increasing qs"
  by (auto simp: ids_increasing_def ids_by_position_def sorted_wrt_iff_nth_less)

subsection \<open>Labels\<close>

lemma ascii_simps [simp]: "ascii [] = []" "ascii (c # cs) = of_char c # ascii cs"
  by (simp_all add: ascii_def)















lemma remove_small: "length opts \<le> 2 \<Longrightarrow> handleRemoveOption i opts = opts"
  by (simp add: handleRemoveOption_def)


lemma filter_enumerate_below:
  "k < n \<Longrightarrow> filter (\<lambda>(i, opt). i \<noteq> k) (enumerate n xs) = enumerate n xs"
  by (rule filter_True) (auto simp: in_set_enumerate_eq)

lemma filter_enumerate_index:
  "map snd (filter (\<lambda>(i, opt). i \<noteq> n + k) (enumerate n xs)) = take k xs @ drop (Suc k) xs"
proof (induction xs arbitrary: n k)
  case Nil
  show ?case by simp
next
  case (Cons x xs)
  show ?case
  proof (cases k)
    case 0
    then show ?thesis by (simp add: filter_enumerate_below)
  next
    case (Suc k')
    then show ?thesis using Cons.IH[of "Suc n" k'] by simp
  qed
qed


lemma length_remove:
  "length (handleRemoveOption i opts) =
   (if 2 < length opts \<and> i < length opts then length opts - 1 else length opts)"
  using filter_enumerate_index[of 0 i opts, THEN arg_cong, of length]
  by (auto simp: handleRemoveOption_def Let_def)





lemma fold_remove_keeps_two:
  "2 \<le> length opts \<Longrightarrow> 2 \<le> length (fold handleRemoveOption is opts)"
proof (induction "is" arbitrary: opts)
  case Nil
  then show ?case by simp
next
  case (Cons i "is")
  have "2 \<le> length (handleRemoveOption i opts)"
    using Cons.prems by (auto simp: length_remove)
  then show ?case using Cons.IH by simp
qed

subsection \<open>The submit of the add-question form\<close>

lemma trim_Nil: "trim [] = []"
  by (simp add: trim_def)

lemma has_text_with_image: "has_text (with_image_reference opt up)"
  by (simp add: has_text_def with_image_reference_def)

lemma upload_option_images_count:
  "length (filter has_text opts) \<le>
   length (filter has_text (fst (upload_option_images up oi opts w)))"
proof (induction opts arbitrary: w)
  case Nil
  show ?case by simp
next
  case (Cons opt opts)
  show ?case
    by (auto simp: case_prod_beta has_text_with_image split: option.splits
        intro!: Cons.IH le_SucI)
qed

lemma handleSubmit_Inr:
  assumes "fst (handleSubmit up n st w) = Inr q"
  shows "confidence q = 1" "flags q = []" "tables q = []"
    "options q = filter has_text (fst (upload_option_images up (optionImages st)
       (form_options st) (snd (upload_question_images up (questionImages st) w))))"
    "question_type q = f_question_type (formData st)"
    "english_text q = f_english_text (formData st)"
    "hindi_text q = f_hindi_text (formData st)"
    "\<not> (trim (f_english_text (formData st)) = [] \<and> trim (f_hindi_text (formData st)) = [])"
    "f_question_type (formData st) = multiple_choice \<Longrightarrow>
       2 \<le> length (filter has_text (form_options st))"
    "id_q q = n"
  using assms
  by (auto simp: handleSubmit_def Let_def case_prod_beta split: if_splits)

lemma example_submit: "fst (handleSubmit example_upload 5 example_form 0) = Inr example_added"
  by (simp add: handleSubmit_def example_form_def example_added_def example_upload_def
      four_options_def trim_def isWhiteSpace_def has_text_def plain_option_def
      or_undefined_def with_image_reference_def)

lemma blank_form_texts:
  "trim (f_english_text (formData blank_form)) = [] \<and>
   trim (f_hindi_text (formData blank_form)) = []"
  by (simp add: blank_form_def example_form_def trim_def isWhiteSpace_def)

lemma handleSubmit_texts:
  "(trim (f_english_text (formData st)) = [] \<and> trim (f_hindi_text (formData st)) = [] \<longrightarrow>
      fst (handleSubmit up n st w) = Inl NoQuestionText) \<and>
   (\<forall>q. fst (handleSubmit up n st w) = Inr q \<longrightarrow>
      \<not> (trim (english_text q) = [] \<and> trim (hindi_text q) = []) \<and>
      \<not> (english_text q = [] \<and> hindi_text q = []))"
  by (auto simp: handleSubmit_def Let_def case_prod_beta trim_Nil split: if_splits)

lemma handleSave_texts:
  "english_text (fst (handleSave up editData imgs optImgs w)) = english_text editData \<and>
   hindi_text (fst (handleSave up editData imgs optImgs w)) = hindi_text editData \<and>
   id_q (fst (handleSave up editData imgs optImgs w)) = id_q editData"
  by (simp add: handleSave_def case_prod_beta)

subsection \<open>Flag descriptions\<close>






subsection \<open>The aligner\<close>

lemma align_nth:
  "i < max (length en) (length hi) \<Longrightarrow>
   align en hi ! i = align_pair i (nth_opt en i) (nth_opt hi i)"
  by (simp add: align_def del: upt_Suc)

lemma length_align: "length (align en hi) = max (length en) (length hi)"
  by (simp add: align_def)

section \<open>The claims\<close>

subsection \<open>Question ids under the editor operations\<close>

theorem delete_breaks_ids_by_position:
  "ids_by_position [plain_question 1 [] [] 1, plain_question 2 [] [] 1] \<and>
   \<not> ids_by_position
        (handleDeleteQuestion True 1 [plain_question 1 [] [] 1, plain_question 2 [] [] 1])"
  by (simp add: ids_by_position_def handleDeleteQuestion_def plain_question_def less_Suc_eq)

text \<open>
  Claim C1, amended. A list with \<open>records[i].id == i+1\<close> has strictly increasing ids; an
  update keeps every id where it is, and an add whose new question carries the id
  computed as \<open>nextId\<close> keeps \<open>records[i].id == i+1\<close> (for a list of fewer than \<open>2^53\<close>
  records, which every array is). A delete, once confirmed, keeps exactly the records
  whose id differs from the given one, as they are and in their order, and renumbers
  nothing; so after it the ids need not equal position plus one. Update, delete and,
  while the ids are safe integers, add keep the ids strictly increasing. \<open>nextId\<close>
  yields an id whenever the list is within the engine's limit on arguments.
\<close>

theorem ids_under_editor_operations:
  "(ids_by_position qs \<longrightarrow>
      ids_increasing qs \<and>
      ids_by_position (handleUpdateQuestion u qs) \<and>
      (length qs < 2 ^ 53 \<and> nextId max_arguments qs = Inr (id_q new) \<longrightarrow>
         ids_by_position (handleAddQuestion new qs))) \<and>
   (ids_increasing qs \<longrightarrow>
      ids_increasing (handleUpdateQuestion u qs) \<and>
      ((\<forall>q \<in> set qs. safe_integer (id_q q)) \<and> nextId max_arguments qs = Inr (id_q new) \<longrightarrow>
         ids_increasing (handleAddQuestion new qs)) \<and>
      ids_increasing (handleDeleteQuestion confirmed i qs)) \<and>
   (length qs \<le> max_arguments \<longrightarrow> (\<exists>n. nextId max_arguments qs = Inr n)) \<and>
   map id_q (handleUpdateQuestion u qs) = map id_q qs \<and>
   handleDeleteQuestion True i qs = nths qs {k. k < length qs \<and> id_q (qs ! k) \<noteq> i} \<and>
   handleDeleteQuestion False i qs = qs"
proof -
  have "handleDeleteQuestion False i qs = qs"
    by (simp add: handleDeleteQuestion_def)
  then show ?thesis
    using by_position_increasing[of qs] update_by_position[of qs u]
      add_by_position[of qs max_arguments new] update_increasing[of qs u]
      add_increasing[of qs max_arguments new] delete_increasing[of qs confirmed i]
      map_id_update[of u qs] delete_nths[of i qs] nextId_returns[of qs max_arguments]
    by blast
qed

theorem ids_under_editor_operations_witness:
  "ids_by_position three_questions \<and> length three_questions < 2 ^ 53 \<and>
   nextId 65535 three_questions = Inr (id_q (plain_question 4 [] [] 1)) \<and>
   ids_by_position (handleUpdateQuestion (plain_question 2 [104, 105] [] 1) three_questions) \<and>
   ids_by_position (handleAddQuestion (plain_question 4 [] [] 1) three_questions) \<and>
   ids_increasing (handleAddQuestion (plain_question 4 [] [] 1) three_questions) \<and>
   handleDeleteQuestion True 2 three_questions =
     [plain_question 1 (ascii ''one'') [] 1, plain_question 3 (ascii ''three'') [] 1] \<and>
   ids_increasing (handleDeleteQuestion True 2 three_questions)"
proof -
  have p: "ids_by_position three_questions"
    by (simp add: ids_by_position_def three_questions_def plain_question_def less_Suc_eq)
  have l: "length three_questions < 2 ^ 53"
    by (simp add: three_questions_def)
  have s: "\<forall>q \<in> set three_questions. safe_integer (id_q q)"
    by (simp add: three_questions_def plain_question_def safe_integer_def)
  have "double_of_int (3 + 1) = 4"
    by (simp add: double_of_int_def nearest_double_small)
  then have n: "nextId 65535 three_questions = Inr (id_q (plain_question 4 [] [] 1))"
    by (simp add: nextId_def three_questions_def plain_question_def)
  have d: "handleDeleteQuestion True 2 three_questions =
      [plain_question 1 (ascii ''one'') [] 1, plain_question 3 (ascii ''three'') [] 1]"
    by (simp add: handleDeleteQuestion_def three_questions_def plain_question_def)
  from p l s n d
    ids_under_editor_operations[of three_questions "plain_question 2 [104, 105] [] 1"
      65535 "plain_question 4 [] [] 1" True 2]
  show ?thesis by blast
qed

subsection \<open>Option labels\<close>




text \<open>
  Claim C9. Remove-option returns a list of at most two options as it is, in the card's
  edit data and in the form's state alike; so a list that starts with at least two
  options has at least two after any sequence of removals.
\<close>

theorem handleRemoveOption_keeps_two:
  "(length opts \<le> 2 \<longrightarrow> handleRemoveOption index opts = opts) \<and>
   (length (options editData) \<le> 2 \<longrightarrow> card_handleRemoveOption index editData = editData) \<and>
   (length (form_options st) \<le> 2 \<longrightarrow> form_handleRemoveOption index st = st) \<and>
   (2 \<le> length opts \<longrightarrow> 2 \<le> length (fold handleRemoveOption indices opts))"
  using fold_remove_keeps_two[of opts indices]
  by (simp add: remove_small card_handleRemoveOption_def form_handleRemoveOption_def)

theorem handleRemoveOption_keeps_two_witness:
  "length (take 2 four_options) \<le> 2 \<and>
   handleRemoveOption 0 (take 2 four_options) = take 2 four_options \<and>
   length (options (plain_question 1 [] [] 1)) \<le> 2 \<and>
   card_handleRemoveOption 0 (plain_question 1 [] [] 1) = plain_question 1 [] [] 1 \<and>
   length (form_options (example_form\<lparr>form_options := take 2 four_options\<rparr>)) \<le> 2 \<and>
   form_handleRemoveOption 0 (example_form\<lparr>form_options := take 2 four_options\<rparr>) =
     example_form\<lparr>form_options := take 2 four_options\<rparr> \<and>
   2 \<le> length four_options \<and>
   2 \<le> length (fold handleRemoveOption [0, 0, 0, 1] four_options)"
proof -
  have a: "length (take 2 four_options) \<le> 2" "2 \<le> length four_options"
    "length (options (plain_question 1 [] [] 1)) \<le> 2"
    "length (form_options (example_form\<lparr>form_options := take 2 four_options\<rparr>)) \<le> 2"
    by (simp_all add: four_options_def plain_question_def)
  from a
    handleRemoveOption_keeps_two[of "take 2 four_options" 0 "plain_question 1 [] [] 1"
      "example_form\<lparr>form_options := take 2 four_options\<rparr>"]
    handleRemoveOption_keeps_two[of four_options 0 "plain_question 1 [] [] 1"
      "example_form\<lparr>form_options := take 2 four_options\<rparr>" "[0, 0, 0, 1]"]
  show ?thesis by blast
qed

subsection \<open>The filters of the review list\<close>

text \<open>
  Claim C3. The low-confidence selection is the sublist of the records, in their order,
  at exactly the positions whose confidence is below 0.7; the flagged selection is the
  sublist at exactly the positions whose flag list is not empty. The counters on the two
  buttons count the same records.
\<close>

theorem filteredQuestions_selects:
  "filteredQuestions FilterLowConfidence qs =
     nths qs {i. i < length qs \<and> confidence (qs ! i) < 0.7} \<and>
   filteredQuestions FilterFlagged qs = nths qs {i. i < length qs \<and> flags (qs ! i) \<noteq> []} \<and>
   (q \<in> set (filteredQuestions FilterLowConfidence qs) \<longleftrightarrow> q \<in> set qs \<and> confidence q < 0.7) \<and>
   (q \<in> set (filteredQuestions FilterFlagged qs) \<longleftrightarrow> q \<in> set qs \<and> flags q \<noteq> []) \<and>
   subseq (filteredQuestions f qs) qs \<and>
   low_confidence_count qs = length (filteredQuestions FilterLowConfidence qs) \<and>
   flagged_count qs = length (filteredQuestions FilterFlagged qs)"
proof -
  have "filteredQuestions FilterLowConfidence qs = filter (\<lambda>q. confidence q < 0.7) qs"
    by (simp add: filteredQuestions_def)
  then have a: "filteredQuestions FilterLowConfidence qs =
      nths qs {i. i < length qs \<and> confidence (qs ! i) < 0.7}"
    by (simp only: filter_eq_nths)
  have "filteredQuestions FilterFlagged qs = filter (\<lambda>q. flags q \<noteq> []) qs"
    by (simp add: filteredQuestions_def)
  then have b: "filteredQuestions FilterFlagged qs =
      nths qs {i. i < length qs \<and> flags (qs ! i) \<noteq> []}"
    by (simp only: filter_eq_nths)
  have c: "q \<in> set (filteredQuestions FilterLowConfidence qs) \<longleftrightarrow>
      q \<in> set qs \<and> confidence q < 0.7"
    by (simp add: filteredQuestions_def)
  have d: "q \<in> set (filteredQuestions FilterFlagged qs) \<longleftrightarrow> q \<in> set qs \<and> flags q \<noteq> []"
    by (simp add: filteredQuestions_def)
  have e: "subseq (filteredQuestions f qs) qs"
    by (simp add: filteredQuestions_def)
  have f: "low_confidence_count qs = length (filteredQuestions FilterLowConfidence qs)"
    by (simp add: filteredQuestions_def low_confidence_count_def)
  have g: "flagged_count qs = length (filteredQuestions FilterFlagged qs)"
    by (simp add: filteredQuestions_def flagged_count_def)
  show ?thesis by (intro conjI a b c d e f g)
qed

theorem filteredQuestions_selects_witness:
  "filteredQuestions FilterLowConfidence
     [plain_question 1 [] [] 0.5, plain_question 2 [] [] 0.7, plain_question 3 [] [] 0.69] =
     [plain_question 1 [] [] 0.5, plain_question 3 [] [] 0.69] \<and>
   filteredQuestions FilterFlagged
     [plain_question 1 [] [] 0.5, (plain_question 2 [] [] 0.7)\<lparr>flags := [ascii ''missing_hindi'']\<rparr>] =
     [(plain_question 2 [] [] 0.7)\<lparr>flags := [ascii ''missing_hindi'']\<rparr>]"
  using filteredQuestions_selects[of
      "[plain_question 1 [] [] 0.5, plain_question 2 [] [] 0.7, plain_question 3 [] [] 0.69]"]
  by (simp add: filteredQuestions_def plain_question_def)

subsection \<open>The flag vocabulary\<close>




subsection \<open>The add-question form\<close>

text \<open>
  Claim C5. The submit of the add-question form rejects two empty texts, but the save
  of an edited question does not: with both text areas of the first question cleared,
  \<open>handleSave\<close> hands the cleared record on as it is, the update installs it in the list,
  and the list then holds a record whose English and Hindi texts are both empty. The
  add-question form with the same two texts is rejected.
\<close>

theorem handleSave_installs_cleared_question:
  "english_text cleared_question = [] \<and> hindi_text cleared_question = [] \<and>
   fst (handleSave example_upload cleared_question [] Map.empty 0) = cleared_question \<and>
   handleUpdateQuestion (fst (handleSave example_upload cleared_question [] Map.empty 0))
     two_questions = [cleared_question, plain_question 2 (ascii ''two'') [] 1] \<and>
   fst (handleSubmit example_upload 3
     (example_form\<lparr>formData := (formData example_form)\<lparr>f_english_text := [],
        f_hindi_text := []\<rparr>\<rparr>) 0) = Inl NoQuestionText"
  by (simp add: cleared_question_def edit_english_text_def edit_hindi_text_def
      plain_question_def handleSave_def handleUpdateQuestion_def two_questions_def
      handleSubmit_def trim_def)

text \<open>
  Claim C10. A question handed on by the submit has confidence 1.0, no flags, no tables,
  and only options with a non-empty English or a non-empty Hindi text; when its type is
  \<open>multiple_choice\<close> it has at least two options.
\<close>

theorem handleSubmit_question_fields:
  "fst (handleSubmit up n st w) = Inr q \<Longrightarrow>
   confidence q = 1 \<and> flags q = [] \<and> tables q = [] \<and>
   (\<forall>opt \<in> set (options q). o_english_text opt \<noteq> [] \<or> o_hindi_text opt \<noteq> []) \<and>
   (question_type q = multiple_choice \<longrightarrow> 2 \<le> length (options q))"
proof -
  assume a: "fst (handleSubmit up n st w) = Inr q"
  note h = handleSubmit_Inr[OF a]
  have "\<forall>opt \<in> set (options q). o_english_text opt \<noteq> [] \<or> o_hindi_text opt \<noteq> []"
    unfolding h(4) by (simp add: has_text_def)
  moreover have "2 \<le> length (options q)" if "question_type q = multiple_choice"
  proof -
    have "2 \<le> length (filter has_text (form_options st))"
      using that h(5) h(9) by simp
    also have "\<dots> \<le> length (options q)"
      unfolding h(4) by (rule upload_option_images_count)
    finally show ?thesis .
  qed
  ultimately show ?thesis using h(1-3) by blast
qed

theorem handleSubmit_question_fields_witness:
  "fst (handleSubmit example_upload 5 example_form 0) = Inr example_added \<and>
   confidence example_added = 1 \<and> flags example_added = [] \<and> tables example_added = [] \<and>
   has_text (options example_added ! 2) \<and>
   question_type example_added = multiple_choice \<and> 2 \<le> length (options example_added)"
proof -
  have q: "question_type example_added = multiple_choice"
    "options example_added ! 2 \<in> set (options example_added)"
    by (simp_all add: example_added_def)
  from handleSubmit_question_fields[OF example_submit] q example_submit
  show ?thesis unfolding has_text_def by blast
qed

subsection \<open>The update of a question\<close>

text \<open>
  Claim C8. The update keeps the length of the list; at every position it puts the
  updated record where the id equals the updated record's id and leaves the record as
  it is where the id differs.
\<close>

theorem handleUpdateQuestion_frame:
  "length (handleUpdateQuestion u qs) = length qs \<and>
   (\<forall>i < length qs.
      (id_q (qs ! i) = id_q u \<longrightarrow> handleUpdateQuestion u qs ! i = u) \<and>
      (id_q (qs ! i) \<noteq> id_q u \<longrightarrow> handleUpdateQuestion u qs ! i = qs ! i))"
  by (simp add: handleUpdateQuestion_def)

theorem handleUpdateQuestion_frame_witness:
  "handleUpdateQuestion (plain_question 2 [104, 105] [] 1)
     [plain_question 1 [] [] 1, plain_question 2 [] [] 0.5, plain_question 3 [] [] 1] ! 1 =
     plain_question 2 [104, 105] [] 1 \<and>
   handleUpdateQuestion (plain_question 2 [104, 105] [] 1)
     [plain_question 1 [] [] 1, plain_question 2 [] [] 0.5, plain_question 3 [] [] 1] ! 2 =
     plain_question 3 [] [] 1 \<and>
   length (handleUpdateQuestion (plain_question 2 [104, 105] [] 1)
     [plain_question 1 [] [] 1, plain_question 2 [] [] 0.5, plain_question 3 [] [] 1]) = 3"
proof -
  let ?qs = "[plain_question 1 [] [] 1, plain_question 2 [] [] 0.5, plain_question 3 [] [] 1]"
  let ?u = "plain_question 2 [104, 105] [] 1"
  have a: "(1::nat) < length ?qs" "(2::nat) < length ?qs" "length ?qs = 3"
    "id_q (?qs ! 1) = id_q ?u" "id_q (?qs ! 2) \<noteq> id_q ?u" "?qs ! 2 = plain_question 3 [] [] 1"
    by (simp_all add: plain_question_def)
  from handleUpdateQuestion_frame[of ?u ?qs] a show ?thesis by metis
qed

subsection \<open>The specification's aligner and confidence engine\<close>

text \<open>
  Claim C6. When Hindi has fewer questions than English, the job has one record for
  every English question; the records are paired by position as far as Hindi reaches,
  every later record has its English side only and carries \<open>missing_hindi\<close>, and the
  job carries \<open>count_mismatch\<close>.
\<close>

theorem align_job_fewer_hindi:
  "length hi < length en \<Longrightarrow>
   length (job_records (align_job en hi)) = length en \<and>
   (\<forall>i < length hi.
      english (job_records (align_job en hi) ! i) = Some (en ! i) \<and>
      hindi (job_records (align_job en hi) ! i) = Some (hi ! i)) \<and>
   (\<forall>i. length hi \<le> i \<and> i < length en \<longrightarrow>
      english (job_records (align_job en hi) ! i) = Some (en ! i) \<and>
      hindi (job_records (align_job en hi) ! i) = None \<and>
      missing_hindi \<in> b_flags (job_records (align_job en hi) ! i)) \<and>
   count_mismatch \<in> job_flags (align_job en hi)"
  by (auto simp: align_job_def align_nth length_align align_pair_def nth_opt_def
      side_missing_def)

theorem align_job_fewer_hindi_witness:
  "length two_hindi < length three_english \<and>
   length (job_records (align_job three_english two_hindi)) = 3 \<and>
   hindi (job_records (align_job three_english two_hindi) ! 1) = Some (mono 1 (ascii ''b'')) \<and>
   hindi (job_records (align_job three_english two_hindi) ! 2) = None \<and>
   missing_hindi \<in> b_flags (job_records (align_job three_english two_hindi) ! 2) \<and>
   count_mismatch \<in> job_flags (align_job three_english two_hindi)"
proof -
  have l: "length two_hindi < length three_english" "length three_english = 3"
    "length two_hindi = 2" "two_hindi ! 1 = mono 1 (ascii ''b'')"
    by (simp_all add: two_hindi_def three_english_def)
  from align_job_fewer_hindi[OF l(1)] l show ?thesis by auto
qed

theorem complex_table_flag_keeps_confidence:
  "in_flags heading_record = {} \<and> compute_confidence heading_record \<noteq> 0 \<and>
   complex_table \<in> penalized_flags \<and>
   \<not> compute_confidence (raise_flag complex_table heading_record)
       < compute_confidence heading_record"
  by (simp add: heading_record_def compute_confidence_def penalty_def clamp01_def
      raise_flag_def penalized_flags_def)

text \<open>
  Claim C7, amended. A record with no flags has a confidence above zero, and the
  confidence recomputed after any one of the flags \<open>missing_options\<close>,
  \<open>missing_english\<close>, \<open>missing_hindi\<close>, \<open>ambiguous_numbering\<close>, \<open>incomplete_options\<close> and
  \<open>count_mismatch\<close> is added is strictly smaller. The penalty for tables is keyed on a
  table being complex and not on the flag \<open>complex_table\<close>: adding that flag leaves the
  confidence as it is, and the confidence of a record without a complex table becomes
  strictly smaller when a table of it becomes complex.
\<close>

theorem penalized_flag_lowers_confidence:
  "in_flags r = {} \<longrightarrow>
     0 < compute_confidence r \<and>
     (f \<in> flag_penalized \<longrightarrow> compute_confidence (raise_flag f r) < compute_confidence r) \<and>
     compute_confidence (raise_flag complex_table r) = compute_confidence r \<and>
     (\<not> any_table_complex r \<longrightarrow>
        compute_confidence (r\<lparr>any_table_complex := True\<rparr>) < compute_confidence r)"
  by (cases "boundary r"; cases "any_table_complex r")
    (auto simp: compute_confidence_def raise_flag_def flag_penalized_def penalty_def
      clamp01_def)

theorem penalized_flag_lowers_confidence_witness:
  "in_flags heading_record = {} \<and> missing_options \<in> flag_penalized \<and>
   \<not> any_table_complex heading_record \<and>
   compute_confidence heading_record = 0.8 \<and>
   compute_confidence (raise_flag missing_options heading_record) = 0.56 \<and>
   compute_confidence (raise_flag missing_options heading_record)
     < compute_confidence heading_record \<and>
   compute_confidence (heading_record\<lparr>any_table_complex := True\<rparr>)
     < compute_confidence heading_record"
proof -
  have 1: "in_flags heading_record = {}" "\<not> any_table_complex heading_record"
    by (simp_all add: heading_record_def)
  have 2: "compute_confidence heading_record = 0.8"
    by (simp add: compute_confidence_def penalty_def clamp01_def heading_record_def)
  have 3: "missing_options \<in> flag_penalized"
    by (simp add: flag_penalized_def)
  have 4: "compute_confidence (raise_flag missing_options heading_record) = 0.56"
    by (simp add: compute_confidence_def penalty_def clamp01_def raise_flag_def
        heading_record_def)
  from penalized_flag_lowers_confidence[of heading_record missing_options] 1 2 3 4
  show ?thesis by blast
qed


end
